theory Spec2Isabelle
  imports Complex_Main "HOL-Library.Char_ord" "HOL-Library.List_Lexorder" "HOL-Library.Multiset"
begin

section \<open>JavaScript values of a request body\<close>

text \<open>
  The controller reads the fields of \<open>req.body\<close>, which express parses from JSON
  or from a URL-encoded form: any field may be absent, null, a boolean, a number, a
  string, or an array or object. The code applies \<open>!x\<close>, \<open>isNaN\<close>, the relational
  operators and \<open>parseFloat\<close> to these values, so their coercions are part of the
  model.

  A number is a double. The code only compares and parses numbers, it never computes
  with them, so a finite double is embedded in the reals; decimal text is read exactly
  (rounding to the nearest double, overflow to infinity and the sign of zero are
  outside the model).
\<close>

datatype jsnum = NaN | NegInf | Fin real | PosInf

text \<open>
  The numeric branch of the abstract relational comparison: \<open>None\<close> is the result
  \<open>undefined\<close> that a NaN operand produces.
\<close>

fun num_lt :: "jsnum \<Rightarrow> jsnum \<Rightarrow> bool option" where
  "num_lt NaN y = None"
| "num_lt x NaN = None"
| "num_lt PosInf y = Some False"
| "num_lt x NegInf = Some False"
| "num_lt NegInf y = Some True"
| "num_lt x PosInf = Some True"
| "num_lt (Fin a) (Fin b) = Some (a < b)"

definition num_less :: "jsnum \<Rightarrow> jsnum \<Rightarrow> bool" where
  "num_less x y = (num_lt x y = Some True)"

definition num_ge :: "jsnum \<Rightarrow> jsnum \<Rightarrow> bool" where
  "num_ge x y = (num_lt x y = Some False)"

definition num_le :: "jsnum \<Rightarrow> jsnum \<Rightarrow> bool" where
  "num_le x y = (num_lt y x = Some False)"

fun num_neg :: "jsnum \<Rightarrow> jsnum" where
  "num_neg NaN = NaN"
| "num_neg NegInf = PosInf"
| "num_neg PosInf = NegInf"
| "num_neg (Fin a) = Fin (- a)"

text \<open>
  \<open>JObject s\<close> is an array or a plain object, represented by the string \<open>s\<close> that
  its conversion to a primitive yields (\<open>[5]\<close> gives \<open>"5"\<close>, \<open>{}\<close> gives
  \<open>"[object Object]"\<close>): the code under study uses such a value only through that
  conversion, through its truthiness, and through the missing \<open>trim\<close> method.
\<close>

datatype jsval = JUndefined | JNull | JBool bool | JNum jsnum | JStr string | JObject string

fun truthy :: "jsval \<Rightarrow> bool" where
  "truthy JUndefined = False"
| "truthy JNull = False"
| "truthy (JBool b) = b"
| "truthy (JNum n) = (n \<noteq> NaN \<and> n \<noteq> Fin 0)"
| "truthy (JStr s) = (s \<noteq> [])"
| "truthy (JObject s) = True"

subsection \<open>Strings\<close>

text \<open>
  Strings are ASCII: \<open>trim\<close> strips the ASCII white space and line terminators,
  \<open>toUpperCase\<close> maps the letters a to z.
\<close>

definition is_ws :: "char \<Rightarrow> bool" where
  "is_ws c = ((of_char c :: nat) \<in> {9, 10, 11, 12, 13, 32})"

definition trimStart :: "string \<Rightarrow> string" where
  "trimStart s = dropWhile is_ws s"

definition trimEnd :: "string \<Rightarrow> string" where
  "trimEnd s = rev (dropWhile is_ws (rev s))"

definition trim :: "string \<Rightarrow> string" where
  "trim s = trimEnd (trimStart s)"

definition upper_char :: "char \<Rightarrow> char" where
  "upper_char c =
     (if 97 \<le> (of_char c :: nat) \<and> (of_char c :: nat) \<le> 122
      then char_of ((of_char c :: nat) - 32) else c)"

definition toUpperCase :: "string \<Rightarrow> string" where
  "toUpperCase s = map upper_char s"

subsection \<open>Text to number\<close>

definition is_digit :: "char \<Rightarrow> bool" where
  "is_digit c = (48 \<le> (of_char c :: nat) \<and> (of_char c :: nat) \<le> 57)"

definition digits_val :: "string \<Rightarrow> nat" where
  "digits_val s = foldl (\<lambda>n c. 10 * n + ((of_char c :: nat) - 48)) 0 s"

text \<open>The exponent part of a decimal literal: e or E, an optional sign, digits.\<close>

definition scan_exponent :: "string \<Rightarrow> (int \<times> string) option" where
  "scan_exponent s =
     (case s of
        [] \<Rightarrow> None
      | c # r \<Rightarrow>
          if c = CHR ''e'' \<or> c = CHR ''E'' then
            (let neg = (r \<noteq> [] \<and> hd r = CHR ''-'');
                 r1 = (if r \<noteq> [] \<and> (hd r = CHR ''-'' \<or> hd r = CHR ''+'') then tl r else r);
                 ds = takeWhile is_digit r1
             in if ds = [] then None
                else Some (if neg then - int (digits_val ds) else int (digits_val ds),
                           dropWhile is_digit r1))
          else None)"

definition scale10 :: "real \<Rightarrow> int \<Rightarrow> real" where
  "scale10 m e = (if 0 \<le> e then m * 10 ^ nat e else m / 10 ^ nat (- e))"

text \<open>
  The longest prefix that is an unsigned decimal literal of the string grammar
  (\<open>Infinity\<close>, digits with an optional fraction and exponent, or a fraction alone),
  with its value and the text left over.
\<close>

definition scan_unsigned :: "string \<Rightarrow> (jsnum \<times> string) option" where
  "scan_unsigned s =
     (if take 8 s = ''Infinity'' then Some (PosInf, drop 8 s)
      else
        (let ip = takeWhile is_digit s;
             r1 = dropWhile is_digit s;
             dot = (r1 \<noteq> [] \<and> hd r1 = CHR ''.'');
             fp = (if dot then takeWhile is_digit (tl r1) else []);
             r2 = (if dot then dropWhile is_digit (tl r1) else r1)
         in if ip = [] \<and> fp = [] then None
            else
              (let m = real (digits_val (ip @ fp)) / 10 ^ length fp
               in case scan_exponent r2 of
                    Some (e, r3) \<Rightarrow> Some (Fin (scale10 m e), r3)
                  | None \<Rightarrow> Some (Fin m, r2))))"

definition scan_signed :: "string \<Rightarrow> (jsnum \<times> string) option" where
  "scan_signed s =
     (case s of
        [] \<Rightarrow> None
      | c # r \<Rightarrow>
          if c = CHR ''-'' then map_option (\<lambda>(v, t). (num_neg v, t)) (scan_unsigned r)
          else if c = CHR ''+'' then scan_unsigned r
          else scan_unsigned s)"

text \<open>Binary, octal and hexadecimal integer literals (\<open>0b\<close>, \<open>0o\<close>, \<open>0x\<close>).\<close>

definition radix_digit :: "nat \<Rightarrow> char \<Rightarrow> nat option" where
  "radix_digit b c =
     (let k = (of_char c :: nat);
          v = (if 48 \<le> k \<and> k \<le> 57 then Some (k - 48)
               else if 97 \<le> k \<and> k \<le> 102 then Some (k - 87)
               else if 65 \<le> k \<and> k \<le> 70 then Some (k - 55)
               else None)
      in case v of None \<Rightarrow> None | Some d \<Rightarrow> if d < b then Some d else None)"

fun radix_val :: "nat \<Rightarrow> nat \<Rightarrow> string \<Rightarrow> nat option" where
  "radix_val b acc [] = Some acc"
| "radix_val b acc (c # cs) =
     (case radix_digit b c of None \<Rightarrow> None | Some d \<Rightarrow> radix_val b (b * acc + d) cs)"

definition radix_literal :: "string \<Rightarrow> nat option" where
  "radix_literal s =
     (case s of
        z # x # d # ds \<Rightarrow>
          if z \<noteq> CHR ''0'' then None
          else if x = CHR ''x'' \<or> x = CHR ''X'' then radix_val 16 0 (d # ds)
          else if x = CHR ''o'' \<or> x = CHR ''O'' then radix_val 8 0 (d # ds)
          else if x = CHR ''b'' \<or> x = CHR ''B'' then radix_val 2 0 (d # ds)
          else None
      | _ \<Rightarrow> None)"

text \<open>
  \<open>Number(s)\<close> on a string: white space is trimmed, the empty string is 0, the
  whole of the rest must be one numeric literal.
\<close>

definition StringToNumber :: "string \<Rightarrow> jsnum" where
  "StringToNumber s =
     (let t = trim s
      in if t = [] then Fin 0
         else case radix_literal t of
                Some n \<Rightarrow> Fin (real n)
              | None \<Rightarrow>
                  (case scan_signed t of
                     Some (v, rest) \<Rightarrow> if rest = [] then v else NaN
                   | None \<Rightarrow> NaN))"

fun ToNumber :: "jsval \<Rightarrow> jsnum" where
  "ToNumber JUndefined = NaN"
| "ToNumber JNull = Fin 0"
| "ToNumber (JBool b) = (if b then Fin 1 else Fin 0)"
| "ToNumber (JNum n) = n"
| "ToNumber (JStr s) = StringToNumber s"
| "ToNumber (JObject s) = StringToNumber s"

definition isNaN :: "jsval \<Rightarrow> bool" where
  "isNaN v = (ToNumber v = NaN)"

text \<open>
  \<open>parseFloat(v)\<close> converts \<open>v\<close> to a string and reads the longest decimal
  literal at its start. The string of a number reads back as that number; the strings
  of undefined, null and the booleans start with no literal.
\<close>

definition parseFloat_str :: "string \<Rightarrow> jsnum" where
  "parseFloat_str s = (case scan_signed (trimStart s) of Some (v, rest) \<Rightarrow> v | None \<Rightarrow> NaN)"

fun parseFloat :: "jsval \<Rightarrow> jsnum" where
  "parseFloat JUndefined = NaN"
| "parseFloat JNull = NaN"
| "parseFloat (JBool b) = NaN"
| "parseFloat (JNum n) = n"
| "parseFloat (JStr s) = parseFloat_str s"
| "parseFloat (JObject s) = parseFloat_str s"

subsection \<open>Relational operators\<close>

text \<open>
  \<open>IsLessThan\<close>: both operands are converted to primitives; two strings are compared
  as strings, by code units; otherwise both are converted to numbers.
\<close>

fun ToPrimitive :: "jsval \<Rightarrow> jsval" where
  "ToPrimitive (JObject s) = JStr s"
| "ToPrimitive v = v"

definition IsLessThan :: "jsval \<Rightarrow> jsval \<Rightarrow> bool option" where
  "IsLessThan x y =
     (case (ToPrimitive x, ToPrimitive y) of
        (JStr a, JStr b) \<Rightarrow> Some (a < b)
      | (px, py) \<Rightarrow> num_lt (ToNumber px) (ToNumber py))"

definition js_lt :: "jsval \<Rightarrow> jsval \<Rightarrow> bool" where
  "js_lt x y = (IsLessThan x y = Some True)"

definition js_gt :: "jsval \<Rightarrow> jsval \<Rightarrow> bool" where
  "js_gt x y = (IsLessThan y x = Some True)"

definition js_ge :: "jsval \<Rightarrow> jsval \<Rightarrow> bool" where
  "js_ge x y = (IsLessThan x y = Some False)"

section \<open>The KaratMaster schema\<close>

text \<open>
  An ObjectId is held by its 24 hexadecimal digits. A value of the body is cast to an
  ObjectId when it is such a string (the 12-byte form is outside the model); the digits
  are case-insensitive.
\<close>

datatype objectId = ObjectId string

definition is_hex :: "char \<Rightarrow> bool" where
  "is_hex c = (radix_digit 16 c \<noteq> None)"

definition lower_char :: "char \<Rightarrow> char" where
  "lower_char c =
     (if 65 \<le> (of_char c :: nat) \<and> (of_char c :: nat) \<le> 90
      then char_of ((of_char c :: nat) + 32) else c)"

definition castObjectId :: "jsval \<Rightarrow> objectId option" where
  "castObjectId v =
     (case v of
        JStr s \<Rightarrow> if length s = 24 \<and> list_all is_hex s then Some (ObjectId (map lower_char s))
                  else None
      | _ \<Rightarrow> None)"

definition ObjectId_isValid :: "jsval \<Rightarrow> bool" where
  "ObjectId_isValid v = (castObjectId v \<noteq> None)"

datatype karat_status = Active | Inactive

text \<open>
  A stored document. The timestamps, which the store manages, are left out; the
  populated division of \<open>getByDivision\<close> is the reference itself.
\<close>

record karat =
  oid :: objectId
  karatCode :: string
  division :: objectId
  description :: string
  standardPurity :: jsnum
  minimum :: jsnum
  maximum :: jsnum
  isActive :: bool
  status :: karat_status
  createdBy :: objectId
  updatedBy :: "objectId option"

type_synonym store = "karat list"

datatype error =
    REQUIRED_FIELDS_MISSING
  | INVALID_NUMERIC_VALUES
  | INVALID_PURITY_RANGE
  | INVALID_VALUE_RANGE
  | INVALID_MIN_MAX_RANGE
  | INVALID_PURITY
  | INVALID_MINIMUM
  | INVALID_MAXIMUM
  | ID_REQUIRED
  | IDS_REQUIRED
  | INVALID_ID_FORMAT "jsval list"
  | INVALID_STATUS
  | NOT_FOUND
  | DUPLICATE_CODE
  | TypeError
  | ReferenceError string
  | ValidationError
  | CastError
  | DuplicateKey

text \<open>
  The validators of the schema paths. \<open>karatCode\<close>: required (a non-empty string),
  at most 10 characters, matching \<open>/^[A-Z0-9]+$/\<close>. \<open>description\<close>: required, at
  most 200 characters. \<open>standardPurity\<close>: a number from 0 to 100. \<open>minimum\<close> and
  \<open>maximum\<close>: numbers, not negative. NaN is no number for the cast.
\<close>

definition is_code_char :: "char \<Rightarrow> bool" where
  "is_code_char c =
     ((65 \<le> (of_char c :: nat) \<and> (of_char c :: nat) \<le> 90) \<or>
      (48 \<le> (of_char c :: nat) \<and> (of_char c :: nat) \<le> 57))"

definition karatCode_valid :: "string \<Rightarrow> bool" where
  "karatCode_valid s = (s \<noteq> [] \<and> length s \<le> 10 \<and> list_all is_code_char s)"

definition schema_valid :: "karat \<Rightarrow> bool" where
  "schema_valid d =
     (karatCode_valid (karatCode d) \<and>
      description d \<noteq> [] \<and> length (description d) \<le> 200 \<and>
      num_ge (standardPurity d) (Fin 0) \<and> num_le (standardPurity d) (Fin 100) \<and>
      num_ge (minimum d) (Fin 0) \<and>
      num_ge (maximum d) (Fin 0))"

text \<open>
  The pre-save middleware: the code is upper-cased, and a document whose minimum is
  not below its maximum is refused.
\<close>

definition pre_save :: "karat \<Rightarrow> error + karat" where
  "pre_save this =
     (let this1 = (if karatCode this \<noteq> [] then this\<lparr>karatCode := toUpperCase (karatCode this)\<rparr>
                   else this)
      in if num_ge (minimum this1) (maximum this1) then Inl ValidationError
         else Inr this1)"

text \<open>The unique compound index on (karatCode, division), over the other documents.\<close>

definition index_conflict :: "karat \<Rightarrow> store \<Rightarrow> bool" where
  "index_conflict d st =
     list_ex (\<lambda>r. oid r \<noteq> oid d \<and> karatCode r = karatCode d \<and> division r = division d) st"

text \<open>
  \<open>save\<close> of a new document: the validators, the pre-save middleware, the unique
  index, then the insertion. A failure leaves the collection as it was.
\<close>

definition save_new :: "karat \<Rightarrow> store \<Rightarrow> (error + karat) \<times> store" where
  "save_new d st =
     (if \<not> schema_valid d then (Inl ValidationError, st)
      else case pre_save d of
             Inl e \<Rightarrow> (Inl e, st)
           | Inr d1 \<Rightarrow>
               if index_conflict d1 st then (Inl DuplicateKey, st)
               else (Inr d1, st @ [d1]))"

text \<open>\<open>save\<close> of a loaded document: the same checks, then the document is replaced.\<close>

definition save_existing :: "karat \<Rightarrow> store \<Rightarrow> (error + karat) \<times> store" where
  "save_existing d st =
     (if \<not> schema_valid d then (Inl ValidationError, st)
      else case pre_save d of
             Inl e \<Rightarrow> (Inl e, st)
           | Inr d1 \<Rightarrow>
               if index_conflict d1 st then (Inl DuplicateKey, st)
               else (Inr d1, map (\<lambda>r. if oid r = oid d1 then d1 else r) st))"

subsection \<open>The statics of the model\<close>

text \<open>
  \<open>isKaratCodeExists(karatCode, divisionId, excludeId = null)\<close>: \<open>None\<close> is the
  default \<open>null\<close>; an ObjectId that is given is truthy. The static upper-cases the
  code and puts it into the filter of \<open>findOne\<close>; the filter is cast by the schema,
  and the cast of the path \<open>karatCode\<close> runs its setters, \<open>trim\<close> and
  \<open>uppercase\<close>, on the value before the documents are compared with it.
\<close>

definition isKaratCodeExists :: "store \<Rightarrow> string \<Rightarrow> objectId \<Rightarrow> objectId option \<Rightarrow> bool" where
  "isKaratCodeExists st code divisionId excludeId =
     (let filter_karatCode = toUpperCase (trim (toUpperCase code));
          query = (\<lambda>r. karatCode r = filter_karatCode \<and> division r = divisionId \<and>
                        (case excludeId of None \<Rightarrow> True | Some e \<Rightarrow> oid r \<noteq> e))
      in find query st \<noteq> None)"

text \<open>
  \<open>getByDivision(divisionId)\<close>: the documents of the division with status
  \<open>"active"\<close> and \<open>isActive\<close> true, sorted by \<open>karatCode\<close> ascending (strings
  are ordered by code units).
\<close>

definition getByDivision :: "store \<Rightarrow> objectId \<Rightarrow> karat list" where
  "getByDivision st divisionId =
     sort_key karatCode
       (filter (\<lambda>r. division r = divisionId \<and> status r = Active \<and> isActive r = True) st)"

section \<open>The service\<close>

text \<open>
  The controller calls \<open>KaratMasterService\<close>, whose file is not among the sources.
  Its operations are written from the specification (section 4.3, the Lifecycle
  Manager, and section 4.4, the Bulk Operation Coordinator), on top of the schema
  above; each says so.
\<close>

definition bindE :: "error + 'a \<Rightarrow> ('a \<Rightarrow> error + 'b) \<Rightarrow> error + 'b" where
  "bindE m f = (case m of Inl e \<Rightarrow> Inl e | Inr x \<Rightarrow> f x)"

text \<open>The object \<open>karatData\<close> that \<open>createKarat\<close> hands to the service.\<close>

record karatData =
  d_karatCode :: string
  d_division :: jsval
  d_description :: string
  d_standardPurity :: jsnum
  d_minimum :: jsnum
  d_maximum :: jsnum

text \<open>
  \<open>new KaratMaster({...karatData, createdBy})\<close>: the setters of the schema trim and
  upper-case the code and trim the description; \<open>isActive\<close> and \<open>status\<close> take
  their defaults.
\<close>

definition new_document :: "karatData \<Rightarrow> objectId \<Rightarrow> objectId \<Rightarrow> objectId \<Rightarrow> karat" where
  "new_document d dv adminId newId =
     \<lparr> oid = newId,
       karatCode = toUpperCase (trim (d_karatCode d)),
       division = dv,
       description = trim (d_description d),
       standardPurity = d_standardPurity d,
       minimum = d_minimum d,
       maximum = d_maximum d,
       isActive = True,
       status = Active,
       createdBy = adminId,
       updatedBy = None \<rparr>"

text \<open>
  Modelled from the spec: \<open>KaratMasterService.createKarat\<close>, absent from the sources.
  Section 4.3: create runs the Uniqueness Resolver and, on success, persists a new
  record with createdBy set to the actor and status and active defaulted to active,
  and returns the stored record; a duplicate fails with DuplicateCode. The validator
  step of the spec's create is the check block of the controller. \<open>newId\<close> is the
  identifier the store assigns.
\<close>

definition KaratMasterService_createKarat ::
  "karatData \<Rightarrow> objectId \<Rightarrow> objectId \<Rightarrow> store \<Rightarrow> (error + karat) \<times> store" where
  "KaratMasterService_createKarat d adminId newId st =
     (case castObjectId (d_division d) of
        None \<Rightarrow> (Inl CastError, st)
      | Some dv \<Rightarrow>
          if isKaratCodeExists st (d_karatCode d) dv None then (Inl DUPLICATE_CODE, st)
          else save_new (new_document d dv adminId newId) st)"

text \<open>
  Modelled from the spec: \<open>KaratMasterService.getKaratById\<close>, absent from the
  sources. Section 4.3: getById fetches a record and fails with NotFound when the
  identifier does not resolve to one.
\<close>

definition KaratMasterService_getKaratById :: "string \<Rightarrow> store \<Rightarrow> error + karat" where
  "KaratMasterService_getKaratById kid st =
     (case castObjectId (JStr kid) of
        None \<Rightarrow> Inl NOT_FOUND
      | Some i \<Rightarrow>
          (case find (\<lambda>r. oid r = i) st of None \<Rightarrow> Inl NOT_FOUND | Some r \<Rightarrow> Inr r))"

text \<open>The body of a request: the fields of the schema that a client can send.\<close>

record body =
  b_karatCode :: jsval
  b_division :: jsval
  b_description :: jsval
  b_standardPurity :: jsval
  b_minimum :: jsval
  b_maximum :: jsval
  b_isActive :: jsval
  b_status :: jsval

definition empty_body :: body where
  "empty_body =
     \<lparr> b_karatCode = JUndefined, b_division = JUndefined, b_description = JUndefined,
       b_standardPurity = JUndefined, b_minimum = JUndefined, b_maximum = JUndefined,
       b_isActive = JUndefined, b_status = JUndefined \<rparr>"

text \<open>
  The resolved final value of a numeric field: the existing value where the field is
  omitted, the new value where it is supplied.
\<close>

definition resolve_num :: "jsval \<Rightarrow> jsnum \<Rightarrow> jsnum" where
  "resolve_num v cur = (case v of JUndefined \<Rightarrow> cur | JNum n \<Rightarrow> n | _ \<Rightarrow> NaN)"

definition finite_num :: "jsnum \<Rightarrow> bool" where
  "finite_num n = (case n of Fin x \<Rightarrow> True | _ \<Rightarrow> False)"

text \<open>
  Modelled from the spec: the validator in update mode (section 4.1), which
  \<open>KaratMasterService.updateKarat\<close> runs on the merged values. Only the fields
  present in the partial set are validated, with the per-field rules (a finite number;
  the purity from 0 to 100; minimum and maximum not negative), and the failures are
  those of section 7 (InvalidPurity, InvalidPurityRange, InvalidMinimum,
  InvalidMaximum). The check that the minimum is below the maximum always uses the
  resolved final pair and fails with InvalidMinMaxRange. The result is the merged
  record; a field of the wrong type is left to the schema (a validation error).
\<close>

definition validator_update :: "karat \<Rightarrow> body \<Rightarrow> error + karat" where
  "validator_update cur u =
     (let sp = resolve_num (b_standardPurity u) (standardPurity cur);
          mn = resolve_num (b_minimum u) (minimum cur);
          mx = resolve_num (b_maximum u) (maximum cur)
      in if b_standardPurity u \<noteq> JUndefined \<and> \<not> finite_num sp then Inl INVALID_PURITY
         else if b_standardPurity u \<noteq> JUndefined \<and> \<not> (num_ge sp (Fin 0) \<and> num_le sp (Fin 100))
           then Inl INVALID_PURITY_RANGE
         else if b_minimum u \<noteq> JUndefined \<and> \<not> (finite_num mn \<and> num_ge mn (Fin 0))
           then Inl INVALID_MINIMUM
         else if b_maximum u \<noteq> JUndefined \<and> \<not> (finite_num mx \<and> num_ge mx (Fin 0))
           then Inl INVALID_MAXIMUM
         else if \<not> num_less mn mx then Inl INVALID_MIN_MAX_RANGE
         else
           bindE (case b_karatCode u of
                    JUndefined \<Rightarrow> Inr (karatCode cur)
                  | JStr c \<Rightarrow> Inr (toUpperCase (trim c))
                  | _ \<Rightarrow> Inl ValidationError) (\<lambda>code.
           bindE (case b_description u of
                    JUndefined \<Rightarrow> Inr (description cur)
                  | JStr t \<Rightarrow> Inr (trim t)
                  | _ \<Rightarrow> Inl ValidationError) (\<lambda>descr.
           bindE (case b_division u of
                    JUndefined \<Rightarrow> Inr (division cur)
                  | v \<Rightarrow> (case castObjectId v of None \<Rightarrow> Inl CastError | Some dv \<Rightarrow> Inr dv)) (\<lambda>dv.
           bindE (case b_status u of
                    JUndefined \<Rightarrow> Inr (status cur)
                  | JStr t \<Rightarrow> if t = ''active'' then Inr Active
                              else if t = ''inactive'' then Inr Inactive
                              else Inl ValidationError
                  | _ \<Rightarrow> Inl ValidationError) (\<lambda>stat.
           bindE (case b_isActive u of
                    JUndefined \<Rightarrow> Inr (isActive cur)
                  | JBool a \<Rightarrow> Inr a
                  | _ \<Rightarrow> Inl CastError) (\<lambda>act.
           Inr (cur\<lparr> karatCode := code, description := descr, division := dv,
                     standardPurity := sp, minimum := mn, maximum := mx,
                     status := stat, isActive := act \<rparr>)))))))"

text \<open>
  Modelled from the spec: \<open>KaratMasterService.updateKarat\<close>, absent from the sources.
  Section 4.3: update loads the current record (NotFound when it is missing), runs
  the validator in update mode against the merged current and partial values, runs
  the Uniqueness Resolver when the code or the division changed (excluding the record
  itself; DuplicateCode on a match), persists with updatedBy set to the actor, and
  returns the updated record. No failed update is applied in part.
\<close>

definition KaratMasterService_updateKarat ::
  "string \<Rightarrow> body \<Rightarrow> objectId \<Rightarrow> store \<Rightarrow> (error + karat) \<times> store" where
  "KaratMasterService_updateKarat kid u adminId st =
     (case KaratMasterService_getKaratById kid st of
        Inl e \<Rightarrow> (Inl e, st)
      | Inr cur \<Rightarrow>
          (case validator_update cur u of
             Inl e \<Rightarrow> (Inl e, st)
           | Inr m \<Rightarrow>
               if (karatCode m \<noteq> karatCode cur \<or> division m \<noteq> division cur) \<and>
                  isKaratCodeExists st (karatCode m) (division m) (Some (oid cur))
               then (Inl DUPLICATE_CODE, st)
               else save_existing (m\<lparr>updatedBy := Some adminId\<rparr>) st))"

text \<open>A record matches a list of identifiers when one of them casts to its id.\<close>

definition id_matches :: "jsval list \<Rightarrow> karat \<Rightarrow> bool" where
  "id_matches ids r = list_ex (\<lambda>v. castObjectId v = Some (oid r)) ids"

text \<open>
  Modelled from the spec: \<open>KaratMasterService.bulkPermanentDelete\<close>, absent from the
  sources. Section 4.4: it removes all matching records and returns the count
  actually deleted, which may be less than the number of ids.
\<close>

definition KaratMasterService_bulkPermanentDelete :: "jsval list \<Rightarrow> store \<Rightarrow> nat \<times> store" where
  "KaratMasterService_bulkPermanentDelete ids st =
     (length (filter (id_matches ids) st), filter (\<lambda>r. \<not> id_matches ids r) st)"

text \<open>
  Modelled from the spec: \<open>KaratMasterService.bulkUpdateStatus\<close>, absent from the
  sources. Section 4.4: it applies the status and the synchronized active flag to
  every matching record, stamping updatedBy, and returns matchedCount (the records
  found) and modifiedCount (the records whose value actually changed).
\<close>

definition status_applied :: "karat_status \<Rightarrow> karat \<Rightarrow> bool" where
  "status_applied s r = (status r = s \<and> isActive r = (s = Active))"

definition KaratMasterService_bulkUpdateStatus ::
  "jsval list \<Rightarrow> karat_status \<Rightarrow> objectId \<Rightarrow> store \<Rightarrow> (nat \<times> nat) \<times> store" where
  "KaratMasterService_bulkUpdateStatus ids s adminId st =
     ((length (filter (id_matches ids) st),
       length (filter (\<lambda>r. id_matches ids r \<and> \<not> status_applied s r) st)),
      map (\<lambda>r. if id_matches ids r
                then r\<lparr>status := s, isActive := (s = Active), updatedBy := Some adminId\<rparr>
                else r) st)"

section \<open>The controller\<close>

subsection \<open>createKarat\<close>

text \<open>
  The check block of \<open>createKarat\<close> and the construction of \<open>karatData\<close>. A
  truthy code or description that is no string has no \<open>trim\<close> method: the call
  throws a TypeError, which the handler passes on like every other failure.
\<close>

definition createKarat_request :: "body \<Rightarrow> error + karatData" where
  "createKarat_request b =
     (if \<not> truthy (b_karatCode b) \<or> \<not> truthy (b_division b) \<or> \<not> truthy (b_description b) \<or>
         b_standardPurity b = JUndefined \<or> b_minimum b = JUndefined \<or> b_maximum b = JUndefined
      then Inl REQUIRED_FIELDS_MISSING
      else if isNaN (b_standardPurity b) \<or> isNaN (b_minimum b) \<or> isNaN (b_maximum b)
      then Inl INVALID_NUMERIC_VALUES
      else if js_lt (b_standardPurity b) (JNum (Fin 0)) \<or> js_gt (b_standardPurity b) (JNum (Fin 100))
      then Inl INVALID_PURITY_RANGE
      else if js_lt (b_minimum b) (JNum (Fin 0)) \<or> js_lt (b_maximum b) (JNum (Fin 0))
      then Inl INVALID_VALUE_RANGE
      else if js_ge (b_minimum b) (b_maximum b)
      then Inl INVALID_MIN_MAX_RANGE
      else
        (case b_karatCode b of
           JStr c \<Rightarrow>
             (case b_description b of
                JStr t \<Rightarrow>
                  Inr \<lparr> d_karatCode = trim c,
                        d_division = b_division b,
                        d_description = trim t,
                        d_standardPurity = parseFloat (b_standardPurity b),
                        d_minimum = parseFloat (b_minimum b),
                        d_maximum = parseFloat (b_maximum b) \<rparr>
              | _ \<Rightarrow> Inl TypeError)
         | _ \<Rightarrow> Inl TypeError))"

definition createKarat :: "body \<Rightarrow> objectId \<Rightarrow> objectId \<Rightarrow> store \<Rightarrow> (error + karat) \<times> store" where
  "createKarat b adminId newId st =
     (case createKarat_request b of
        Inl e \<Rightarrow> (Inl e, st)
      | Inr d \<Rightarrow> KaratMasterService_createKarat d adminId newId st)"

subsection \<open>updateKarat\<close>

text \<open>The steps of \<open>updateKarat\<close> on \<open>updateData\<close>, in the order of the source.\<close>

definition normalize_standardPurity :: "body \<Rightarrow> error + body" where
  "normalize_standardPurity u =
     (if b_standardPurity u \<noteq> JUndefined then
        (if isNaN (b_standardPurity u) then Inl INVALID_PURITY
         else if js_lt (b_standardPurity u) (JNum (Fin 0)) \<or>
                 js_gt (b_standardPurity u) (JNum (Fin 100))
         then Inl INVALID_PURITY_RANGE
         else Inr (u\<lparr>b_standardPurity := JNum (parseFloat (b_standardPurity u))\<rparr>))
      else Inr u)"

definition normalize_minimum :: "body \<Rightarrow> error + body" where
  "normalize_minimum u =
     (if b_minimum u \<noteq> JUndefined then
        (if isNaN (b_minimum u) \<or> js_lt (b_minimum u) (JNum (Fin 0)) then Inl INVALID_MINIMUM
         else Inr (u\<lparr>b_minimum := JNum (parseFloat (b_minimum u))\<rparr>))
      else Inr u)"

definition normalize_maximum :: "body \<Rightarrow> error + body" where
  "normalize_maximum u =
     (if b_maximum u \<noteq> JUndefined then
        (if isNaN (b_maximum u) \<or> js_lt (b_maximum u) (JNum (Fin 0)) then Inl INVALID_MAXIMUM
         else Inr (u\<lparr>b_maximum := JNum (parseFloat (b_maximum u))\<rparr>))
      else Inr u)"

definition trim_karatCode :: "body \<Rightarrow> error + body" where
  "trim_karatCode u =
     (if truthy (b_karatCode u) then
        (case b_karatCode u of JStr c \<Rightarrow> Inr (u\<lparr>b_karatCode := JStr (trim c)\<rparr>) | _ \<Rightarrow> Inl TypeError)
      else Inr u)"

definition trim_description :: "body \<Rightarrow> error + body" where
  "trim_description u =
     (if truthy (b_description u) then
        (case b_description u of
           JStr t \<Rightarrow> Inr (u\<lparr>b_description := JStr (trim t)\<rparr>)
         | _ \<Rightarrow> Inl TypeError)
      else Inr u)"

definition updateKarat_request :: "string \<Rightarrow> body \<Rightarrow> error + body" where
  "updateKarat_request kid updateData =
     (if kid = [] then Inl ID_REQUIRED
      else bindE (normalize_standardPurity updateData) (\<lambda>u1.
           bindE (normalize_minimum u1) (\<lambda>u2.
           bindE (normalize_maximum u2) (\<lambda>u3.
           bindE (trim_karatCode u3) trim_description))))"

definition updateKarat :: "string \<Rightarrow> body \<Rightarrow> objectId \<Rightarrow> store \<Rightarrow> (error + karat) \<times> store" where
  "updateKarat kid updateData adminId st =
     (case updateKarat_request kid updateData of
        Inl e \<Rightarrow> (Inl e, st)
      | Inr u \<Rightarrow> KaratMasterService_updateKarat kid u adminId st)"

subsection \<open>toggleKaratStatus\<close>

definition toggleKaratStatus :: "string \<Rightarrow> objectId \<Rightarrow> store \<Rightarrow> (error + karat) \<times> store" where
  "toggleKaratStatus kid adminId st =
     (if kid = [] then (Inl ID_REQUIRED, st)
      else case KaratMasterService_getKaratById kid st of
             Inl e \<Rightarrow> (Inl e, st)
           | Inr currentKarat \<Rightarrow>
               (let newStatus = (if status currentKarat = Active then ''inactive'' else ''active'')
                in KaratMasterService_updateKarat kid
                     (empty_body\<lparr> b_status := JStr newStatus,
                                  b_isActive := JBool (newStatus = ''active'') \<rparr>)
                     adminId st))"

subsection \<open>The bulk handlers\<close>

text \<open>
  The field \<open>ids\<close> of the body: an array with its elements, or any other value,
  \<open>undefined\<close> when the field is missing. The test
  \<open>!ids || !Array.isArray(ids) || ids.length === 0\<close> of both bulk handlers holds
  for every value that is no array and for the empty array.
\<close>

datatype ids_field = NotArray jsval | IsArray "jsval list"

text \<open>
  The identifiers bound in the module of the controller: its two imports (lines 1 and
  2) and the handlers it declares. Evaluating any other identifier that is no global
  of the language throws a ReferenceError.
\<close>

definition module_scope :: "string list" where
  "module_scope =
     [''KaratMasterService'', ''createAppError'', ''createKarat'', ''getKarats'', ''getKarat'',
      ''updateKarat'', ''deleteKarat'', ''permanentDeleteKarat'', ''bulkPermanentDeleteKarats'',
      ''getKaratsByDivision'', ''bulkUpdateKaratStatus'', ''toggleKaratStatus'']"

definition lookup_identifier :: "string \<Rightarrow> error + unit" where
  "lookup_identifier name =
     (if name \<in> set module_scope then Inr () else Inl (ReferenceError name))"

text \<open>\<open>xs.filter(f)\<close> with a callback that may throw: the first throw ends the call.\<close>

fun filterE :: "('a \<Rightarrow> error + bool) \<Rightarrow> 'a list \<Rightarrow> error + 'a list" where
  "filterE f [] = Inr []"
| "filterE f (x # xs) =
     (case f x of
        Inl e \<Rightarrow> Inl e
      | Inr keep \<Rightarrow>
          (case filterE f xs of
             Inl e \<Rightarrow> Inl e
           | Inr ys \<Rightarrow> Inr (if keep then x # ys else ys)))"

text \<open>The callback \<open>(id) => !mongoose.Types.ObjectId.isValid(id)\<close>.\<close>

definition invalid_id :: "jsval \<Rightarrow> error + bool" where
  "invalid_id v =
     (case lookup_identifier ''mongoose'' of
        Inl e \<Rightarrow> Inl e
      | Inr _ \<Rightarrow> Inr (\<not> ObjectId_isValid v))"

definition bulkPermanentDeleteKarats :: "ids_field \<Rightarrow> store \<Rightarrow> (error + nat) \<times> store" where
  "bulkPermanentDeleteKarats ids st =
     (case ids of
        NotArray v \<Rightarrow> (Inl IDS_REQUIRED, st)
      | IsArray xs \<Rightarrow>
          if length xs = 0 then (Inl IDS_REQUIRED, st)
          else
            (case filterE invalid_id xs of
               Inl e \<Rightarrow> (Inl e, st)
             | Inr invalidIds \<Rightarrow>
                 if length invalidIds > 0 then (Inl (INVALID_ID_FORMAT invalidIds), st)
                 else
                   (let (deletedCount, st') = KaratMasterService_bulkPermanentDelete xs st
                    in (Inr deletedCount, st'))))"

text \<open>
  \<open>bulkUpdateKaratStatus\<close>: the result carries \<open>matchedCount\<close> and
  \<open>modifiedCount\<close>, in this order.
\<close>

definition bulkUpdateKaratStatus ::
  "ids_field \<Rightarrow> jsval \<Rightarrow> objectId \<Rightarrow> store \<Rightarrow> (error + nat \<times> nat) \<times> store" where
  "bulkUpdateKaratStatus ids stat adminId st =
     (case ids of
        NotArray v \<Rightarrow> (Inl IDS_REQUIRED, st)
      | IsArray xs \<Rightarrow>
          if length xs = 0 then (Inl IDS_REQUIRED, st)
          else if \<not> truthy stat \<or> stat \<notin> set [JStr ''active'', JStr ''inactive'']
          then (Inl INVALID_STATUS, st)
          else
            (let (counts, st') =
                   KaratMasterService_bulkUpdateStatus xs
                     (if stat = JStr ''active'' then Active else Inactive) adminId st
             in (Inr counts, st')))"

section \<open>Notions used in the properties\<close>

text \<open>The two values of the schema enum \<open>status\<close>, as the strings a client sends.\<close>

fun status_name :: "karat_status \<Rightarrow> string" where
  "status_name Active = ''active''"
| "status_name Inactive = ''inactive''"

text \<open>
  The synchronization of the two status fields of a record, and the partial field
  sets of an update that cannot break it: both fields left out, or both set to
  matching values.
\<close>

definition synced :: "karat \<Rightarrow> bool" where
  "synced r = ((status r = Active) = isActive r)"

definition sync_kept :: "body \<Rightarrow> bool" where
  "sync_kept u =
     ((b_status u = JUndefined \<and> b_isActive u = JUndefined) \<or>
      (b_status u = JStr ''active'' \<and> b_isActive u = JBool True) \<or>
      (b_status u = JStr ''inactive'' \<and> b_isActive u = JBool False))"

text \<open>The field set that \<open>toggleKaratStatus\<close> sends to the service for a new status.\<close>

fun flip_status :: "karat_status \<Rightarrow> karat_status" where
  "flip_status Active = Inactive"
| "flip_status Inactive = Active"

definition toggle_body :: "karat_status \<Rightarrow> body" where
  "toggle_body s =
     empty_body\<lparr> b_status := JStr (status_name s), b_isActive := JBool (s = Active) \<rparr>"

text \<open>An ASCII letter or digit: a character that upper-cases into the code pattern.\<close>

definition is_alnum_char :: "char \<Rightarrow> bool" where
  "is_alnum_char c =
     (is_code_char c \<or> (97 \<le> (of_char c :: nat) \<and> (of_char c :: nat) \<le> 122))"


section \<open>Sample data\<close>

text \<open>The records and requests on which the properties below are exercised.\<close>

definition division1 :: objectId where
  "division1 = ObjectId ''507f1f77bcf86cd799439011''"

definition division2 :: objectId where
  "division2 = ObjectId ''507f1f77bcf86cd799439022''"

definition admin1 :: objectId where
  "admin1 = ObjectId ''64b000000000000000000001''"

definition sample_karat :: karat where
  "sample_karat =
     \<lparr> oid = ObjectId ''65a000000000000000000001'',
       karatCode = ''K18'',
       division = division1,
       description = ''18 Karat Gold'',
       standardPurity = Fin 75,
       minimum = Fin 74.5,
       maximum = Fin 75.5,
       isActive = True,
       status = Active,
       createdBy = admin1,
       updatedBy = None \<rparr>"

definition sample_store :: store where
  "sample_store =
     [ sample_karat\<lparr> oid := ObjectId ''65a000000000000000000002'', karatCode := ''K22'' \<rparr>,
       sample_karat\<lparr> oid := ObjectId ''65a000000000000000000003'', karatCode := ''K14'',
                     isActive := False, status := Inactive \<rparr>,
       sample_karat,
       sample_karat\<lparr> oid := ObjectId ''65a000000000000000000004'', karatCode := ''K24'',
                     division := division2 \<rparr> ]"

definition k18_body :: body where
  "k18_body =
     \<lparr> b_karatCode = JStr '' k18 '',
       b_division = JStr ''507f1f77bcf86cd799439011'',
       b_description = JStr ''18 Karat Gold'',
       b_standardPurity = JNum (Fin 75),
       b_minimum = JNum (Fin 74.5),
       b_maximum = JNum (Fin 75.5),
       b_isActive = JUndefined,
       b_status = JUndefined \<rparr>"

definition sample_id :: string where
  "sample_id = ''65a000000000000000000001''"



definition retired_karat :: karat where
  "retired_karat =
     sample_karat\<lparr>status := Inactive, isActive := False, updatedBy := Some admin1\<rparr>"

definition inactive_karat :: karat where
  "inactive_karat = sample_karat\<lparr>status := Inactive, updatedBy := Some admin1\<rparr>"

definition unflagged_karat :: karat where
  "unflagged_karat = sample_karat\<lparr>isActive := False, updatedBy := Some admin1\<rparr>"

section \<open>Properties of the model statics\<close>

text \<open>
  C7. For every division, \<open>getByDivision\<close> returns exactly the stored records of
  that division whose status is active and whose isActive flag is true (as a
  multiset: every such record, as often as it is stored, and nothing else), and the
  result is sorted by karatCode in ascending order.
\<close>

theorem getByDivision_exact_sorted:
  "mset (getByDivision st divisionId) =
     filter_mset (\<lambda>r. division r = divisionId \<and> status r = Active \<and> isActive r = True) (mset st) \<and>
   sorted (map karatCode (getByDivision st divisionId))"
  unfolding getByDivision_def by simp

theorem getByDivision_exact_sorted_witness:
  "size (mset (getByDivision sample_store division1)) = 2 \<and>
   sorted (map karatCode (getByDivision sample_store division1))"
proof -
  have "size (filter_mset (\<lambda>r. division r = division1 \<and> status r = Active \<and> isActive r = True)
          (mset sample_store)) = 2"
    by (simp add: sample_store_def sample_karat_def division1_def division2_def)
  with getByDivision_exact_sorted [of sample_store division1] show ?thesis by simp
qed

section \<open>Auxiliary facts\<close>

lemma num_lt_None_iff: "num_lt x y = None \<longleftrightarrow> x = NaN \<or> y = NaN"
  by (cases x; cases y) simp_all

lemma num_ge_not_NaN: "num_ge x y \<Longrightarrow> x \<noteq> NaN \<and> y \<noteq> NaN"
  unfolding num_ge_def using num_lt_None_iff [of x y] by auto

lemma not_num_ge_num_less: "x \<noteq> NaN \<Longrightarrow> y \<noteq> NaN \<Longrightarrow> \<not> num_ge x y \<Longrightarrow> num_less x y"
  unfolding num_ge_def num_less_def using num_lt_None_iff [of x y]
  by (cases "num_lt x y") auto

lemma num_less_not_ge: "num_less x y \<Longrightarrow> \<not> num_ge x y"
  unfolding num_ge_def num_less_def by simp


lemma num_ge_zero_less: "num_ge x (Fin 0) \<Longrightarrow> num_less x y \<Longrightarrow> num_ge y (Fin 0)"
  unfolding num_ge_def num_less_def by (cases x; cases y) auto

text \<open>Against a number, a relational operator compares the numeric values.\<close>

lemma IsLessThan_num_right: "IsLessThan v (JNum n) = num_lt (ToNumber v) n"
  unfolding IsLessThan_def by (cases v) simp_all

lemma IsLessThan_num_left: "IsLessThan (JNum n) v = num_lt n (ToNumber v)"
  unfolding IsLessThan_def by (cases v) simp_all

lemma js_lt_num: "js_lt v (JNum n) = num_less (ToNumber v) n"
  unfolding js_lt_def num_less_def by (simp add: IsLessThan_num_right)

lemma js_gt_num: "js_gt v (JNum n) = num_less n (ToNumber v)"
  unfolding js_gt_def num_less_def by (simp add: IsLessThan_num_left)

lemma js_ge_num: "js_ge (JNum a) (JNum b) = num_ge a b"
  unfolding js_ge_def num_ge_def by (simp add: IsLessThan_num_right)

lemma dropWhile_rev_dropWhile:
  assumes "t = [] \<or> \<not> P (hd t)"
  shows "dropWhile P (rev (dropWhile P (rev t))) = rev (dropWhile P (rev t))"
proof (cases t)
  case Nil
  then show ?thesis by simp
next
  case (Cons x xs)
  with assms have nx: "\<not> P x" by simp
  have "dropWhile P (rev t) = dropWhile P (rev xs @ [x])" using Cons by simp
  also have "\<dots> = (if \<forall>y\<in>set (rev xs). P y then [x] else dropWhile P (rev xs) @ [x])"
    using nx by (simp add: dropWhile_append)
  finally have "rev (dropWhile P (rev t)) =
      x # rev (if \<forall>y\<in>set (rev xs). P y then [] else dropWhile P (rev xs))"
    by simp
  then show ?thesis using nx by simp
qed

lemma trimStart_head: "trimStart s = [] \<or> \<not> is_ws (hd (trimStart s))"
  unfolding trimStart_def by (metis hd_dropWhile)

text \<open>Trimming twice is trimming once: the controller trims, then the setter does.\<close>

lemma trim_idem: "trim (trim s) = trim s"
proof -
  have "trimStart (trim s) = trim s"
    unfolding trim_def trimEnd_def
    using dropWhile_rev_dropWhile [of "trimStart s" is_ws] trimStart_head [of s]
    by (simp add: trimStart_def)
  then have "trim (trim s) = trimEnd (trim s)" by (simp add: trim_def)
  also have "\<dots> = trim s" by (simp add: trim_def trimEnd_def dropWhile_idem)
  finally show ?thesis .
qed

lemma upper_char_code_char: "is_code_char c \<Longrightarrow> upper_char c = c"
  unfolding is_code_char_def upper_char_def by auto

lemma toUpperCase_valid: "list_all is_code_char s \<Longrightarrow> toUpperCase s = s"
  unfolding toUpperCase_def by (induction s) (simp_all add: upper_char_code_char)

text \<open>Upper-casing keeps white space and letters apart, so it commutes with trimming.\<close>

lemma is_ws_upper_char: "is_ws (upper_char c) = is_ws c"
  unfolding is_ws_def upper_char_def by auto

lemma upper_char_idem: "upper_char (upper_char c) = upper_char c"
  unfolding upper_char_def by auto

lemma toUpperCase_idem: "toUpperCase (toUpperCase s) = toUpperCase s"
  unfolding toUpperCase_def by (simp add: upper_char_idem)

lemma dropWhile_ws_upper:
  "dropWhile is_ws (map upper_char s) = map upper_char (dropWhile is_ws s)"
  by (induction s) (simp_all add: is_ws_upper_char)

lemma trim_toUpperCase: "trim (toUpperCase s) = toUpperCase (trim s)"
  unfolding trim_def trimEnd_def trimStart_def toUpperCase_def
  by (simp add: dropWhile_ws_upper rev_map)

lemma filter_karatCode: "toUpperCase (trim (toUpperCase code)) = toUpperCase (trim code)"
  by (simp add: trim_toUpperCase toUpperCase_idem)

lemma upper_char_alnum: "is_alnum_char c \<Longrightarrow> is_code_char (upper_char c)"
  unfolding is_alnum_char_def is_code_char_def upper_char_def by auto

lemma toUpperCase_alnum:
  "list_all is_alnum_char s \<Longrightarrow> list_all is_code_char (toUpperCase s)"
  unfolding toUpperCase_def by (induction s) (simp_all add: upper_char_alnum)

lemma save_new_Inr:
  assumes "save_new d st = (Inr r, st')"
  shows "schema_valid d \<and> pre_save d = Inr r \<and> st' = st @ [r]"
  using assms unfolding save_new_def by (auto split: if_splits sum.splits)

text \<open>On a document that passed the validators, the middleware changes nothing.\<close>

lemma pre_save_Inr:
  assumes "pre_save d = Inr r" "schema_valid d"
  shows "r = d \<and> num_less (minimum r) (maximum r)"
proof -
  have cv: "karatCode_valid (karatCode d)" using assms(2) unfolding schema_valid_def by simp
  then have up: "toUpperCase (karatCode d) = karatCode d"
    unfolding karatCode_valid_def by (simp add: toUpperCase_valid)
  have nn: "minimum d \<noteq> NaN" "maximum d \<noteq> NaN"
    using assms(2) num_ge_not_NaN unfolding schema_valid_def by blast+
  from assms(1) up have "r = d \<and> \<not> num_ge (minimum d) (maximum d)"
    unfolding pre_save_def Let_def by (auto split: if_splits)
  with nn show ?thesis using not_num_ge_num_less by blast
qed

lemma createKarat_request_Inr:
  assumes "createKarat_request b = Inr d"
  shows "\<exists>c. b_karatCode b = JStr c \<and> d_karatCode d = trim c"
  using assms unfolding createKarat_request_def
  by (auto split: if_splits jsval.splits)

lemma save_new_not_required: "fst (save_new d st) \<noteq> Inl REQUIRED_FIELDS_MISSING"
  unfolding save_new_def pre_save_def Let_def by (simp split: sum.splits)

lemma service_create_not_required:
  "fst (KaratMasterService_createKarat d a n st) \<noteq> Inl REQUIRED_FIELDS_MISSING"
  unfolding KaratMasterService_createKarat_def
  by (simp add: save_new_not_required split: option.splits)

lemma filterE_invalid_id: "filterE invalid_id (x # xs) = Inl (ReferenceError ''mongoose'')"
  by (simp add: invalid_id_def lookup_identifier_def module_scope_def)

section \<open>Properties of isKaratCodeExists\<close>

lemma isKaratCodeExists_set:
  "isKaratCodeExists st code divisionId excludeId \<longleftrightarrow>
     (\<exists>r \<in> set st.
        (case excludeId of None \<Rightarrow> True | Some e \<Rightarrow> oid r \<noteq> e) \<and>
        karatCode r = toUpperCase (trim code) \<and> division r = divisionId)"
  unfolding isKaratCodeExists_def Let_def find_None_iff filter_karatCode
  by (auto split: option.splits)

text \<open>
  C6, as amended. For every code, division and optional excludeId,
  \<open>isKaratCodeExists\<close> is true exactly when some stored record whose id differs from
  excludeId (any record when excludeId is absent) has the upper-cased, trimmed code as
  its karatCode and the given division.
\<close>

theorem isKaratCodeExists_iff:
  "isKaratCodeExists st code divisionId excludeId \<longleftrightarrow>
     (\<exists>r \<in> set st.
        (case excludeId of None \<Rightarrow> True | Some e \<Rightarrow> oid r \<noteq> e) \<and>
        karatCode r = toUpperCase (trim code) \<and> division r = divisionId)"
  by (rule isKaratCodeExists_set)

theorem isKaratCodeExists_iff_witness:
  "isKaratCodeExists [sample_karat] '' k18 '' division1 None \<and>
   \<not> isKaratCodeExists [sample_karat] '' k18 '' division1
        (Some (ObjectId ''65a000000000000000000001'')) \<and>
   \<not> isKaratCodeExists [sample_karat] ''k18'' division2 None"
proof -
  have up: "toUpperCase (trim '' k18 '') = ''K18''" "toUpperCase (trim ''k18'') = ''K18''"
    by code_simp+
  have a: "isKaratCodeExists [sample_karat] '' k18 '' division1 None"
    unfolding isKaratCodeExists_iff [of "[sample_karat]"] by (simp add: sample_karat_def up)
  have b: "\<not> isKaratCodeExists [sample_karat] '' k18 '' division1
        (Some (ObjectId ''65a000000000000000000001''))"
    unfolding isKaratCodeExists_iff [of "[sample_karat]"] by (simp add: sample_karat_def)
  have c: "\<not> isKaratCodeExists [sample_karat] ''k18'' division2 None"
    unfolding isKaratCodeExists_iff [of "[sample_karat]"]
    by (simp add: sample_karat_def division1_def division2_def)
  from a b c show ?thesis by blast
qed

text \<open>
  C6, as stated, fails on a code with white space around it: for the code " k18 " the
  check is true on a collection that holds the code K18 in the division, although no
  stored record has the upper-cased code " K18 " as its karatCode.
\<close>

theorem isKaratCodeExists_padded_code:
  "isKaratCodeExists [sample_karat] '' k18 '' division1 None \<and>
   toUpperCase '' k18 '' = '' K18 '' \<and>
   karatCode sample_karat = ''K18'' \<and>
   \<not> (\<exists>r \<in> set [sample_karat]. karatCode r = toUpperCase '' k18 '' \<and> division r = division1)"
  by code_simp

section \<open>Properties of createKarat\<close>

text \<open>
  The controller and the schema alone: when the check block accepts a body and the
  document built from its \<open>karatData\<close> is saved, the stored code is the trimmed,
  upper-cased input code, it satisfies the pattern, and the minimum is below the
  maximum. Whatever calls \<open>save\<close> adds nothing to this.
\<close>

lemma validated_document_stored:
  assumes d: "createKarat_request b = Inr d"
    and sv: "save_new (new_document d dv adminId newId) st = (Inr r, st')"
  shows "\<exists>c. b_karatCode b = JStr c \<and> karatCode r = toUpperCase (trim c) \<and>
             1 \<le> length (karatCode r) \<and> length (karatCode r) \<le> 10 \<and>
             list_all is_code_char (karatCode r) \<and>
             num_less (minimum r) (maximum r) \<and> st' = st @ [r]"
proof -
  from createKarat_request_Inr [OF d] obtain c where c: "b_karatCode b = JStr c"
    and dc: "d_karatCode d = trim c" by blast
  let ?doc = "new_document d dv adminId newId"
  from save_new_Inr [OF sv] have v: "schema_valid ?doc" and p: "pre_save ?doc = Inr r"
    and st': "st' = st @ [r]" by auto
  from pre_save_Inr [OF p v] have r: "r = ?doc" and lt: "num_less (minimum r) (maximum r)" by auto
  have code: "karatCode r = toUpperCase (trim c)"
    using r dc by (simp add: new_document_def trim_idem)
  from v r have "karatCode_valid (karatCode r)" unfolding schema_valid_def by simp
  then have "1 \<le> length (karatCode r) \<and> length (karatCode r) \<le> 10 \<and> list_all is_code_char (karatCode r)"
    unfolding karatCode_valid_def by (cases "karatCode r") auto
  with c code lt st' show ?thesis by blast
qed

lemma createKarat_request_data:
  assumes "createKarat_request b = Inr d" "b_karatCode b = JStr c" "b_description b = JStr t"
  shows "d = \<lparr> d_karatCode = trim c, d_division = b_division b, d_description = trim t,
               d_standardPurity = parseFloat (b_standardPurity b),
               d_minimum = parseFloat (b_minimum b),
               d_maximum = parseFloat (b_maximum b) \<rparr>"
  using assms unfolding createKarat_request_def by (auto split: if_splits)

lemma createKarat_Inr_stored:
  assumes "createKarat b adminId newId st = (Inr r, st')"
  shows "\<exists>c. b_karatCode b = JStr c \<and> karatCode r = toUpperCase (trim c) \<and>
             1 \<le> length (karatCode r) \<and> length (karatCode r) \<le> 10 \<and>
             list_all is_code_char (karatCode r) \<and>
             num_less (minimum r) (maximum r) \<and> st' = st @ [r]"
proof -
  from assms obtain d where d: "createKarat_request b = Inr d"
    and s: "KaratMasterService_createKarat d adminId newId st = (Inr r, st')"
    unfolding createKarat_def by (cases "createKarat_request b") auto
  from s obtain dv where sv: "save_new (new_document d dv adminId newId) st = (Inr r, st')"
    unfolding KaratMasterService_createKarat_def by (auto split: option.splits if_splits)
  from validated_document_stored [OF d sv] show ?thesis .
qed

text \<open>
  A body that the check block accepts, whose trimmed code has 1 to 10 letters or
  digits, whose trimmed description has 1 to 200 characters, whose division is an
  ObjectId, whose parsed numbers are in range and whose code is new in the division, is
  stored, as the record spelled out here.
\<close>

lemma createKarat_accepted_stored:
  fixes adminId newId :: objectId
  assumes accepted: "createKarat_request b = Inr d"
    and code: "b_karatCode b = JStr c" "trim c \<noteq> []" "length (trim c) \<le> 10"
      "list_all is_alnum_char (trim c)"
    and descr: "b_description b = JStr t" "trim t \<noteq> []" "length (trim t) \<le> 200"
    and dv: "castObjectId (b_division b) = Some dv"
    and purity: "num_ge (parseFloat (b_standardPurity b)) (Fin 0)"
      "num_le (parseFloat (b_standardPurity b)) (Fin 100)"
    and range: "num_ge (parseFloat (b_minimum b)) (Fin 0)"
      "num_less (parseFloat (b_minimum b)) (parseFloat (b_maximum b))"
    and fresh: "\<not> isKaratCodeExists st (trim c) dv None"
  defines "r \<equiv> \<lparr> oid = newId, karatCode = toUpperCase (trim c), division = dv,
                   description = trim t,
                   standardPurity = parseFloat (b_standardPurity b),
                   minimum = parseFloat (b_minimum b),
                   maximum = parseFloat (b_maximum b),
                   isActive = True, status = Active, createdBy = adminId,
                   updatedBy = None \<rparr>"
  shows "createKarat b adminId newId st = (Inr r, st @ [r])"
proof -
  note d = createKarat_request_data [OF accepted code(1) descr(1)]
  have doc: "new_document d dv adminId newId = r"
    unfolding new_document_def r_def by (simp add: d trim_idem)
  have cv: "karatCode_valid (karatCode r)"
    unfolding karatCode_valid_def r_def
    using code(2,3,4) by (simp add: toUpperCase_alnum) (simp add: toUpperCase_def)
  have v: "schema_valid r"
    unfolding schema_valid_def using cv descr(2,3) purity range num_ge_zero_less [OF range]
    by (simp add: r_def)
  have up: "toUpperCase (karatCode r) = karatCode r" by (simp add: r_def toUpperCase_idem)
  have ne: "karatCode r \<noteq> []" using cv by (simp add: karatCode_valid_def)
  have ps: "pre_save r = Inr r"
    unfolding pre_save_def Let_def using up ne num_less_not_ge [OF range(2)] by (simp add: r_def)
  from fresh have "\<not> (\<exists>x \<in> set st. karatCode x = toUpperCase (trim (trim c)) \<and> division x = dv)"
    unfolding isKaratCodeExists_set by simp
  then have ic: "\<not> index_conflict r st"
    unfolding index_conflict_def by (auto simp: list_ex_iff r_def trim_idem)
  have sv: "save_new r st = (Inr r, st @ [r])"
    unfolding save_new_def using v ps ic by simp
  show ?thesis
    unfolding createKarat_def KaratMasterService_createKarat_def
    using accepted dv fresh sv by (simp add: d doc [unfolded d])
qed

text \<open>
  C4. For every create call whose inputs pass validation (the check block of the
  controller accepts the body; the trimmed code has 1 to 10 ASCII letters or digits,
  in either case; the trimmed description has 1 to 200 characters; the division is an
  ObjectId; the parsed purity is from 0 to 100, the parsed minimum is not negative and
  below the parsed maximum; no record of the division has the code), the call succeeds
  and stores a record whose code is the upper-cased trimmed input code, which matches
  the pattern of 1 to 10 characters in A-Z or 0-9, and whose minimum is below its
  maximum. And every create call that succeeds, on any input, has stored a record
  with these three properties.
\<close>

theorem createKarat_stored_record:
  fixes adminId newId :: objectId
  assumes "createKarat_request b = Inr d"
    and "b_karatCode b = JStr c" and "trim c \<noteq> []" and "length (trim c) \<le> 10"
    and "list_all is_alnum_char (trim c)"
    and "b_description b = JStr t" and "trim t \<noteq> []" and "length (trim t) \<le> 200"
    and "castObjectId (b_division b) = Some dv"
    and "num_ge (parseFloat (b_standardPurity b)) (Fin 0)"
    and "num_le (parseFloat (b_standardPurity b)) (Fin 100)"
    and "num_ge (parseFloat (b_minimum b)) (Fin 0)"
    and "num_less (parseFloat (b_minimum b)) (parseFloat (b_maximum b))"
    and "\<not> isKaratCodeExists st (trim c) dv None"
  shows "(\<exists>r. createKarat b adminId newId st = (Inr r, st @ [r]) \<and>
              r = \<lparr> oid = newId, karatCode = toUpperCase (trim c), division = dv,
                    description = trim t,
                    standardPurity = parseFloat (b_standardPurity b),
                    minimum = parseFloat (b_minimum b),
                    maximum = parseFloat (b_maximum b),
                    isActive = True, status = Active, createdBy = adminId,
                    updatedBy = None \<rparr> \<and>
              1 \<le> length (karatCode r) \<and> length (karatCode r) \<le> 10 \<and>
              list_all is_code_char (karatCode r) \<and>
              num_less (minimum r) (maximum r)) \<and>
         (\<forall>b' r' st'. createKarat b' adminId newId st = (Inr r', st') \<longrightarrow>
            (\<exists>c'. b_karatCode b' = JStr c' \<and> karatCode r' = toUpperCase (trim c') \<and>
                  1 \<le> length (karatCode r') \<and> length (karatCode r') \<le> 10 \<and>
                  list_all is_code_char (karatCode r') \<and>
                  num_less (minimum r') (maximum r') \<and> st' = st @ [r']))"
proof -
  let ?r = "\<lparr> oid = newId, karatCode = toUpperCase (trim c), division = dv,
                    description = trim t,
                    standardPurity = parseFloat (b_standardPurity b),
                    minimum = parseFloat (b_minimum b),
                    maximum = parseFloat (b_maximum b),
                    isActive = True, status = Active, createdBy = adminId,
                    updatedBy = None \<rparr>"
  have stored: "createKarat b adminId newId st = (Inr ?r, st @ [?r])"
    by (rule createKarat_accepted_stored [OF assms])
  from createKarat_Inr_stored [OF stored]
  have props: "1 \<le> length (karatCode ?r) \<and> length (karatCode ?r) \<le> 10 \<and>
      list_all is_code_char (karatCode ?r) \<and> num_less (minimum ?r) (maximum ?r)"
    by blast
  have all: "\<forall>b' r' st'. createKarat b' adminId newId st = (Inr r', st') \<longrightarrow>
            (\<exists>c'. b_karatCode b' = JStr c' \<and> karatCode r' = toUpperCase (trim c') \<and>
                  1 \<le> length (karatCode r') \<and> length (karatCode r') \<le> 10 \<and>
                  list_all is_code_char (karatCode r') \<and>
                  num_less (minimum r') (maximum r') \<and> st' = st @ [r'])"
    using createKarat_Inr_stored by blast
  from stored props all show ?thesis by blast
qed

lemma k18_accepted:
  "createKarat_request k18_body =
     Inr \<lparr> d_karatCode = ''k18'', d_division = JStr ''507f1f77bcf86cd799439011'',
           d_description = ''18 Karat Gold'', d_standardPurity = Fin 75,
           d_minimum = Fin 74.5, d_maximum = Fin 75.5 \<rparr>"
  by code_simp

theorem createKarat_stored_record_witness:
  "createKarat k18_body admin1 (ObjectId ''65a000000000000000000001'') []
     = (Inr sample_karat, [sample_karat]) \<and>
   karatCode sample_karat = ''K18'' \<and>
   num_less (minimum sample_karat) (maximum sample_karat)"
proof -
  have tc: "trim '' k18 '' = ''k18''" by code_simp
  have td: "trim ''18 Karat Gold'' = ''18 Karat Gold''" by code_simp
  have up: "toUpperCase ''k18'' = ''K18''" by code_simp
  have h1: "b_karatCode k18_body = JStr '' k18 ''" by (simp add: k18_body_def)
  have h2: "trim '' k18 '' \<noteq> []" "length (trim '' k18 '') \<le> 10"
    "list_all is_alnum_char (trim '' k18 '')" by code_simp+
  have h3: "b_description k18_body = JStr ''18 Karat Gold''" by (simp add: k18_body_def)
  have h4: "trim ''18 Karat Gold'' \<noteq> []" "length (trim ''18 Karat Gold'') \<le> 200"
    by code_simp+
  have h5: "castObjectId (b_division k18_body) = Some division1" by code_simp
  have h6: "num_ge (parseFloat (b_standardPurity k18_body)) (Fin 0)"
    "num_le (parseFloat (b_standardPurity k18_body)) (Fin 100)"
    "num_ge (parseFloat (b_minimum k18_body)) (Fin 0)"
    "num_less (parseFloat (b_minimum k18_body)) (parseFloat (b_maximum k18_body))"
    by code_simp+
  have h7: "\<not> isKaratCodeExists [] (trim '' k18 '') division1 None" by code_simp
  from createKarat_stored_record [OF k18_accepted h1 h2 h3 h4 h5 h6 h7,
      of admin1 "ObjectId ''65a000000000000000000001''"]
  obtain r where c: "createKarat k18_body admin1 (ObjectId ''65a000000000000000000001'') []
        = (Inr r, [] @ [r])"
    and r: "r = \<lparr> oid = ObjectId ''65a000000000000000000001'',
                  karatCode = toUpperCase (trim '' k18 ''), division = division1,
                  description = trim ''18 Karat Gold'',
                  standardPurity = parseFloat (b_standardPurity k18_body),
                  minimum = parseFloat (b_minimum k18_body),
                  maximum = parseFloat (b_maximum k18_body),
                  isActive = True, status = Active, createdBy = admin1,
                  updatedBy = None \<rparr>"
    and lt: "num_less (minimum r) (maximum r)"
    by blast
  from r have "r = sample_karat"
    by (simp add: tc td up sample_karat_def k18_body_def)
  with c lt show ?thesis by (simp add: sample_karat_def)
qed

text \<open>
  When the three numeric fields arrive as numbers, the checks are those of the claim
  C5, in its order: a NaN, then a purity outside 0 to 100, then a negative minimum or
  maximum, then a minimum not below the maximum.
\<close>

lemma createKarat_request_numbers:
  assumes "truthy (b_karatCode b)" "truthy (b_division b)" "truthy (b_description b)"
    and "b_standardPurity b = JNum p" "b_minimum b = JNum mn" "b_maximum b = JNum mx"
  shows "(createKarat_request b = Inl INVALID_NUMERIC_VALUES) = (p = NaN \<or> mn = NaN \<or> mx = NaN)"
    and "(createKarat_request b = Inl INVALID_PURITY_RANGE) =
           (\<not> (p = NaN \<or> mn = NaN \<or> mx = NaN) \<and> (num_less p (Fin 0) \<or> num_less (Fin 100) p))"
    and "(createKarat_request b = Inl INVALID_VALUE_RANGE) =
           (\<not> (p = NaN \<or> mn = NaN \<or> mx = NaN) \<and> \<not> (num_less p (Fin 0) \<or> num_less (Fin 100) p) \<and>
            (num_less mn (Fin 0) \<or> num_less mx (Fin 0)))"
    and "(createKarat_request b = Inl INVALID_MIN_MAX_RANGE) =
           (\<not> (p = NaN \<or> mn = NaN \<or> mx = NaN) \<and> \<not> (num_less p (Fin 0) \<or> num_less (Fin 100) p) \<and>
            \<not> (num_less mn (Fin 0) \<or> num_less mx (Fin 0)) \<and> num_ge mn mx)"
  using assms unfolding createKarat_request_def
  by (auto simp: isNaN_def js_lt_num js_gt_num js_ge_num split: jsval.splits)

text \<open>
  C5. The checks of a create call run in the fixed order of the claim, but the last
  one, \<open>minimum >= maximum\<close>, is applied to the values as they arrive, before
  \<open>parseFloat\<close>: two strings are compared as strings, by code units. With minimum
  "9" and maximum "10" the call fails with
  INVALID_MIN_MAX_RANGE although no rule is violated; with minimum "10" and maximum
  "9" every check passes, and the data handed to the service has minimum 10 and
  maximum 9.
\<close>

theorem createKarat_text_range_compared_as_strings:
  "fst (createKarat (k18_body\<lparr>b_minimum := JStr ''9'', b_maximum := JStr ''10''\<rparr>) adminId newId st)
     = Inl INVALID_MIN_MAX_RANGE \<and>
   createKarat_request (k18_body\<lparr>b_minimum := JStr ''10'', b_maximum := JStr ''9''\<rparr>)
     = Inr \<lparr> d_karatCode = ''k18'', d_division = JStr ''507f1f77bcf86cd799439011'',
             d_description = ''18 Karat Gold'', d_standardPurity = Fin 75,
             d_minimum = Fin 10, d_maximum = Fin 9 \<rparr>"
proof -
  have a: "createKarat_request (k18_body\<lparr>b_minimum := JStr ''9'', b_maximum := JStr ''10''\<rparr>)
     = Inl INVALID_MIN_MAX_RANGE"
    by code_simp
  have b: "createKarat_request (k18_body\<lparr>b_minimum := JStr ''10'', b_maximum := JStr ''9''\<rparr>)
     = Inr \<lparr> d_karatCode = ''k18'', d_division = JStr ''507f1f77bcf86cd799439011'',
             d_description = ''18 Karat Gold'', d_standardPurity = Fin 75,
             d_minimum = Fin 10, d_maximum = Fin 9 \<rparr>"
    by code_simp
  from a b show ?thesis unfolding createKarat_def by simp
qed

theorem createKarat_text_range_compared_as_strings_witness:
  "fst (createKarat (k18_body\<lparr>b_minimum := JStr ''9'', b_maximum := JStr ''10''\<rparr>) admin1
          (ObjectId ''65a000000000000000000009'') sample_store)
     = Inl INVALID_MIN_MAX_RANGE"
  by (rule conjunct1 [OF createKarat_text_range_compared_as_strings])

text \<open>
  C10. A create call fails with REQUIRED_FIELDS_MISSING exactly when the code, the
  division or the description is falsy or the purity, the minimum or the maximum is
  \<open>undefined\<close>. The empty string is falsy, so an empty string field counts as
  missing; the number 0 is not \<open>undefined\<close>, so a numeric field that is 0 counts as
  present.
\<close>

theorem createKarat_presence_check:
  "(fst (createKarat b adminId newId st) = Inl REQUIRED_FIELDS_MISSING) =
     (\<not> truthy (b_karatCode b) \<or> \<not> truthy (b_division b) \<or> \<not> truthy (b_description b) \<or>
      b_standardPurity b = JUndefined \<or> b_minimum b = JUndefined \<or> b_maximum b = JUndefined)
   \<and> \<not> truthy (JStr '''') \<and> JNum (Fin 0) \<noteq> JUndefined"
proof -
  let ?missing = "\<not> truthy (b_karatCode b) \<or> \<not> truthy (b_division b) \<or> \<not> truthy (b_description b) \<or>
      b_standardPurity b = JUndefined \<or> b_minimum b = JUndefined \<or> b_maximum b = JUndefined"
  have a: "?missing \<Longrightarrow> createKarat_request b = Inl REQUIRED_FIELDS_MISSING"
    unfolding createKarat_request_def by simp
  have b: "\<not> ?missing \<Longrightarrow> createKarat_request b \<noteq> Inl REQUIRED_FIELDS_MISSING"
    unfolding createKarat_request_def by (simp split: jsval.splits)
  have "(fst (createKarat b adminId newId st) = Inl REQUIRED_FIELDS_MISSING) = ?missing"
  proof (cases ?missing)
    case True
    with a show ?thesis unfolding createKarat_def by simp
  next
    case False
    with b have "createKarat_request b \<noteq> Inl REQUIRED_FIELDS_MISSING" by blast
    then have "fst (createKarat b adminId newId st) \<noteq> Inl REQUIRED_FIELDS_MISSING"
      unfolding createKarat_def
      by (cases "createKarat_request b") (simp_all add: service_create_not_required)
    with False show ?thesis by blast
  qed
  then show ?thesis by simp
qed

theorem createKarat_presence_check_witness:
  "fst (createKarat (k18_body\<lparr>b_standardPurity := JNum (Fin 0), b_minimum := JNum (Fin 0),
          b_maximum := JNum (Fin 0)\<rparr>) admin1 (ObjectId ''65a000000000000000000009'') [])
     \<noteq> Inl REQUIRED_FIELDS_MISSING \<and>
   fst (createKarat (k18_body\<lparr>b_description := JStr ''''\<rparr>) admin1
          (ObjectId ''65a000000000000000000009'') []) = Inl REQUIRED_FIELDS_MISSING"
proof -
  have a: "fst (createKarat (k18_body\<lparr>b_standardPurity := JNum (Fin 0), b_minimum := JNum (Fin 0),
          b_maximum := JNum (Fin 0)\<rparr>) admin1 (ObjectId ''65a000000000000000000009'') [])
     \<noteq> Inl REQUIRED_FIELDS_MISSING"
    using createKarat_presence_check [of "k18_body\<lparr>b_standardPurity := JNum (Fin 0),
          b_minimum := JNum (Fin 0), b_maximum := JNum (Fin 0)\<rparr>" admin1
          "ObjectId ''65a000000000000000000009''" "[]"]
    by (simp add: k18_body_def)
  have b: "fst (createKarat (k18_body\<lparr>b_description := JStr ''''\<rparr>) admin1
          (ObjectId ''65a000000000000000000009'') []) = Inl REQUIRED_FIELDS_MISSING"
    using createKarat_presence_check [of "k18_body\<lparr>b_description := JStr ''''\<rparr>" admin1
          "ObjectId ''65a000000000000000000009''" "[]"]
    by (simp add: k18_body_def)
  from a b show ?thesis by blast
qed

section \<open>Properties of the bulk handlers\<close>

text \<open>
  C2. The handler of the bulk permanent delete refers to \<open>mongoose\<close>, which its
  module does not import: for every non-empty array of ids the validation callback
  throws a ReferenceError on the first id, whatever the ids are. No id is validated,
  nothing is deleted, and no count is returned.
\<close>

theorem bulkPermanentDeleteKarats_reference_error:
  "bulkPermanentDeleteKarats (IsArray (x # xs)) st = (Inl (ReferenceError ''mongoose''), st)"
  unfolding bulkPermanentDeleteKarats_def by (simp add: filterE_invalid_id del: filterE.simps)

theorem bulkPermanentDeleteKarats_reference_error_witness:
  "bulkPermanentDeleteKarats (IsArray [JStr ''65a000000000000000000001'', JStr ''not-an-id''])
     sample_store = (Inl (ReferenceError ''mongoose''), sample_store)"
  by (rule bulkPermanentDeleteKarats_reference_error)

section \<open>Properties of bulkUpdateKaratStatus\<close>

lemma id_matches_iff: "id_matches ids r \<longleftrightarrow> (\<exists>v \<in> set ids. castObjectId v = Some (oid r))"
  unfolding id_matches_def by (simp add: list_ex_iff)



section \<open>Properties of updateKarat\<close>

lemma getKaratById_nonempty:
  assumes "KaratMasterService_getKaratById kid st = Inr cur"
  shows "kid \<noteq> []"
  using assms unfolding KaratMasterService_getKaratById_def castObjectId_def
  by (auto split: option.splits if_splits)









lemma normalize_standardPurity_fields:
  assumes "normalize_standardPurity u = Inr u'"
  shows "b_minimum u' = b_minimum u \<and> b_maximum u' = b_maximum u \<and>
         b_status u' = b_status u \<and> b_isActive u' = b_isActive u"
  using assms unfolding normalize_standardPurity_def by (auto split: if_splits)

lemma normalize_minimum_fields:
  assumes "normalize_minimum u = Inr u'"
  shows "b_minimum u' = (if b_minimum u = JUndefined then JUndefined
                         else JNum (parseFloat (b_minimum u))) \<and>
         b_maximum u' = b_maximum u \<and>
         b_status u' = b_status u \<and> b_isActive u' = b_isActive u"
  using assms unfolding normalize_minimum_def by (auto split: if_splits)

lemma normalize_maximum_fields:
  assumes "normalize_maximum u = Inr u'"
  shows "b_maximum u' = (if b_maximum u = JUndefined then JUndefined
                         else JNum (parseFloat (b_maximum u))) \<and>
         b_minimum u' = b_minimum u \<and>
         b_status u' = b_status u \<and> b_isActive u' = b_isActive u"
  using assms unfolding normalize_maximum_def by (auto split: if_splits)

lemma trim_karatCode_fields:
  assumes "trim_karatCode u = Inr u'"
  shows "b_minimum u' = b_minimum u \<and> b_maximum u' = b_maximum u \<and>
         b_status u' = b_status u \<and> b_isActive u' = b_isActive u"
  using assms unfolding trim_karatCode_def by (auto split: if_splits jsval.splits)

lemma trim_description_fields:
  assumes "trim_description u = Inr u'"
  shows "b_minimum u' = b_minimum u \<and> b_maximum u' = b_maximum u \<and>
         b_status u' = b_status u \<and> b_isActive u' = b_isActive u"
  using assms unfolding trim_description_def by (auto split: if_splits jsval.splits)

lemma bindE_Inr: "bindE m f = Inr y \<Longrightarrow> \<exists>x. m = Inr x \<and> f x = Inr y"
  unfolding bindE_def by (cases m) auto

lemma updateKarat_request_fields:
  assumes "updateKarat_request kid u = Inr u'"
  shows "b_minimum u' = (if b_minimum u = JUndefined then JUndefined
                         else JNum (parseFloat (b_minimum u))) \<and>
         b_maximum u' = (if b_maximum u = JUndefined then JUndefined
                         else JNum (parseFloat (b_maximum u))) \<and>
         b_status u' = b_status u \<and> b_isActive u' = b_isActive u"
proof -
  from assms have "bindE (normalize_standardPurity u) (\<lambda>u1.
           bindE (normalize_minimum u1) (\<lambda>u2.
           bindE (normalize_maximum u2) (\<lambda>u3.
           bindE (trim_karatCode u3) trim_description))) = Inr u'"
    unfolding updateKarat_request_def by (auto split: if_splits)
  then obtain u1 u2 u3 u4 where
    s1: "normalize_standardPurity u = Inr u1" and s2: "normalize_minimum u1 = Inr u2" and
    s3: "normalize_maximum u2 = Inr u3" and s4: "trim_karatCode u3 = Inr u4" and
    s5: "trim_description u4 = Inr u'"
    by (blast dest: bindE_Inr)
  from normalize_standardPurity_fields [OF s1] normalize_minimum_fields [OF s2]
    normalize_maximum_fields [OF s3] trim_karatCode_fields [OF s4] trim_description_fields [OF s5]
  show ?thesis by simp
qed


lemma save_existing_Inr:
  assumes "save_existing d st = (Inr r, st')"
  shows "schema_valid d \<and> pre_save d = Inr r \<and>
         st' = map (\<lambda>x. if oid x = oid r then r else x) st"
  using assms unfolding save_existing_def by (auto split: if_splits sum.splits)






lemma sample_found: "KaratMasterService_getKaratById sample_id [sample_karat] = Inr sample_karat"
  by code_simp



section \<open>Synchronization of status and isActive\<close>

lemma pre_save_status:
  assumes "pre_save d = Inr r"
  shows "status r = status d \<and> isActive r = isActive d \<and> oid r = oid d"
  using assms unfolding pre_save_def Let_def by (auto split: if_splits)

lemma save_new_synced:
  assumes "list_all synced st" "synced d"
  shows "list_all synced (snd (save_new d st))"
proof (cases "save_new d st")
  case (Pair res st')
  show ?thesis
  proof (cases res)
    case (Inl e)
    with Pair have "st' = st" unfolding save_new_def by (auto split: if_splits sum.splits)
    with Pair assms show ?thesis by simp
  next
    case (Inr r)
    with Pair have p: "pre_save d = Inr r" and s: "st' = st @ [r]"
      unfolding save_new_def by (auto split: if_splits sum.splits)
    from pre_save_status [OF p] assms(2) have "synced r" by (simp add: synced_def)
    with s Pair assms(1) show ?thesis by simp
  qed
qed

lemma save_existing_synced:
  assumes "list_all synced st" "synced d"
  shows "list_all synced (snd (save_existing d st))"
proof (cases "save_existing d st")
  case (Pair res st')
  show ?thesis
  proof (cases res)
    case (Inl e)
    with Pair have "st' = st" unfolding save_existing_def by (auto split: if_splits sum.splits)
    with Pair assms show ?thesis by simp
  next
    case (Inr r)
    with Pair have p: "pre_save d = Inr r" and s: "st' = map (\<lambda>x. if oid x = oid r then r else x) st"
      unfolding save_existing_def by (auto split: if_splits sum.splits)
    from pre_save_status [OF p] assms(2) have "synced r" by (simp add: synced_def)
    with s Pair assms(1) show ?thesis by (auto simp: list_all_iff)
  qed
qed

lemma createKarat_synced:
  assumes "list_all synced st"
  shows "list_all synced (snd (createKarat b adminId newId st))"
proof -
  have n: "synced (new_document d dv adminId newId)" for d dv
    by (simp add: new_document_def synced_def)
  have "list_all synced (snd (KaratMasterService_createKarat d adminId newId st))" for d
    unfolding KaratMasterService_createKarat_def
    using assms save_new_synced [OF assms n] by (simp split: option.splits)
  then show ?thesis unfolding createKarat_def using assms by (simp split: sum.splits)
qed

lemma getKaratById_member:
  assumes "KaratMasterService_getKaratById kid st = Inr cur"
  shows "cur \<in> set st"
  using assms unfolding KaratMasterService_getKaratById_def
  by (auto split: option.splits simp: find_Some_iff)

lemma validator_update_status:
  assumes "validator_update cur u = Inr m"
  shows "(b_status u = JUndefined \<longrightarrow> status m = status cur) \<and>
         (b_status u = JStr ''active'' \<longrightarrow> status m = Active) \<and>
         (b_status u = JStr ''inactive'' \<longrightarrow> status m = Inactive) \<and>
         (b_isActive u = JUndefined \<longrightarrow> isActive m = isActive cur) \<and>
         (\<forall>a. b_isActive u = JBool a \<longrightarrow> isActive m = a)"
proof -
  from assms obtain code descr dv stat act where
    st: "(case b_status u of
            JUndefined \<Rightarrow> Inr (status cur)
          | JStr t \<Rightarrow> if t = ''active'' then Inr Active
                      else if t = ''inactive'' then Inr Inactive
                      else Inl ValidationError
          | _ \<Rightarrow> Inl ValidationError) = Inr stat" and
    ac: "(case b_isActive u of
            JUndefined \<Rightarrow> Inr (isActive cur)
          | JBool a \<Rightarrow> Inr a
          | _ \<Rightarrow> Inl CastError) = Inr act" and
    m: "m = cur\<lparr> karatCode := code, description := descr, division := dv,
              standardPurity := resolve_num (b_standardPurity u) (standardPurity cur),
              minimum := resolve_num (b_minimum u) (minimum cur),
              maximum := resolve_num (b_maximum u) (maximum cur),
              status := stat, isActive := act \<rparr>"
    unfolding validator_update_def Let_def
    by (auto split: if_splits dest!: bindE_Inr)
  from st ac m show ?thesis by (auto split: jsval.splits if_splits)
qed

lemma service_update_synced:
  assumes "list_all synced st" "sync_kept u"
  shows "list_all synced (snd (KaratMasterService_updateKarat kid u adminId st))"
proof (cases "KaratMasterService_getKaratById kid st")
  case (Inl e)
  then show ?thesis unfolding KaratMasterService_updateKarat_def using assms(1) by simp
next
  case (Inr cur)
  from getKaratById_member [OF Inr] assms(1) have sc: "synced cur" by (simp add: list_all_iff)
  show ?thesis
  proof (cases "validator_update cur u")
    case (Inl e)
    with Inr show ?thesis unfolding KaratMasterService_updateKarat_def using assms(1) by simp
  next
    case (Inr m)
    from validator_update_status [OF Inr] assms(2) sc have "synced m"
      unfolding sync_kept_def synced_def by auto
    then have "synced (m\<lparr>updatedBy := Some adminId\<rparr>)" by (simp add: synced_def)
    from save_existing_synced [OF assms(1) this] \<open>KaratMasterService_getKaratById kid st = Inr cur\<close> Inr
    show ?thesis unfolding KaratMasterService_updateKarat_def using assms(1) by simp
  qed
qed

lemma toggle_body_eq:
  "empty_body\<lparr> b_status := JStr (if status c = Active then ''inactive'' else ''active''),
      b_isActive := JBool ((if status c = Active then ''inactive'' else ''active'') = ''active'') \<rparr>
   = toggle_body (flip_status (status c))"
  unfolding toggle_body_def by (cases "status c") simp_all

lemma toggle_body_sync_kept: "sync_kept (toggle_body s)"
  unfolding sync_kept_def toggle_body_def empty_body_def by (cases s) simp_all

lemma toggleKaratStatus_service:
  assumes "KaratMasterService_getKaratById kid st = Inr cur"
  shows "toggleKaratStatus kid adminId st =
           KaratMasterService_updateKarat kid (toggle_body (flip_status (status cur))) adminId st"
  unfolding toggleKaratStatus_def Let_def
  using assms getKaratById_nonempty [OF assms] by (simp add: toggle_body_eq)

lemma toggle_synced:
  assumes "list_all synced st"
  shows "list_all synced (snd (toggleKaratStatus kid adminId st))"
proof (cases "KaratMasterService_getKaratById kid st")
  case (Inl e)
  then show ?thesis unfolding toggleKaratStatus_def using assms by simp
next
  case (Inr cur)
  from toggleKaratStatus_service [OF Inr] service_update_synced [OF assms toggle_body_sync_kept]
  show ?thesis by simp
qed

lemma update_synced:
  assumes "list_all synced st" "sync_kept u"
  shows "list_all synced (snd (updateKarat kid u adminId st))"
proof (cases "updateKarat_request kid u")
  case (Inl e)
  then show ?thesis unfolding updateKarat_def using assms(1) by simp
next
  case (Inr u')
  from updateKarat_request_fields [OF Inr] assms(2) have "sync_kept u'"
    unfolding sync_kept_def by simp
  from service_update_synced [OF assms(1) this] Inr show ?thesis
    unfolding updateKarat_def by simp
qed

lemma bulk_synced:
  assumes "list_all synced st"
  shows "list_all synced (snd (bulkUpdateKaratStatus ids stat adminId st))"
proof -
  have "list_all synced (snd (KaratMasterService_bulkUpdateStatus xs s adminId st))" for xs s
    unfolding KaratMasterService_bulkUpdateStatus_def using assms
    by (cases s) (auto simp: list_all_iff synced_def)
  then show ?thesis
    unfolding bulkUpdateKaratStatus_def using assms
    by (simp add: case_prod_beta Let_def split: ids_field.splits)
qed

text \<open>
  C3, as amended. When every stored record has its status and its active flag
  synchronized (status active exactly when the flag is true), they still are after a
  create, after a toggle and after a bulk status update, and after an update whose
  partial field set leaves both fields out or sets both to matching values.
\<close>

theorem status_active_synchronized:
  assumes "list_all synced st"
  shows "list_all synced (snd (createKarat b adminId newId st)) \<and>
         list_all synced (snd (toggleKaratStatus kid adminId st)) \<and>
         list_all synced (snd (bulkUpdateKaratStatus ids stat adminId st)) \<and>
         (sync_kept u \<longrightarrow> list_all synced (snd (updateKarat kid u adminId st)))"
  using createKarat_synced [OF assms] toggle_synced [OF assms] bulk_synced [OF assms]
    update_synced [OF assms] by blast

theorem status_active_synchronized_witness:
  "list_all synced (snd (toggleKaratStatus sample_id admin1 [sample_karat])) \<and>
   snd (toggleKaratStatus sample_id admin1 [sample_karat]) = [retired_karat] \<and>
   list_all synced
     (snd (updateKarat sample_id
             (empty_body\<lparr>b_status := JStr ''inactive'', b_isActive := JBool False\<rparr>)
             admin1 [sample_karat])) \<and>
   snd (updateKarat sample_id
          (empty_body\<lparr>b_status := JStr ''inactive'', b_isActive := JBool False\<rparr>)
          admin1 [sample_karat]) = [retired_karat]"
proof -
  have s: "list_all synced [sample_karat]" by (simp add: synced_def sample_karat_def)
  have k: "sync_kept (empty_body\<lparr>b_status := JStr ''inactive'', b_isActive := JBool False\<rparr>)"
    by (simp add: sync_kept_def)
  have e: "snd (toggleKaratStatus sample_id admin1 [sample_karat]) = [retired_karat]"
    by code_simp
  have f: "snd (updateKarat sample_id
          (empty_body\<lparr>b_status := JStr ''inactive'', b_isActive := JBool False\<rparr>)
          admin1 [sample_karat]) = [retired_karat]"
    by code_simp
  from status_active_synchronized [OF s, of k18_body admin1 "ObjectId sample_id" sample_id
      "NotArray JUndefined" JUndefined
      "empty_body\<lparr>b_status := JStr ''inactive'', b_isActive := JBool False\<rparr>"] k e f
  show ?thesis by blast
qed

text \<open>
  C3, as stated, fails for update: the record that the sample create stores is
  synchronized; an update that supplies only the status "inactive" is accepted and
  stores the status inactive beside the active flag true.
\<close>

theorem updateKarat_status_alone_desynchronizes:
  "createKarat k18_body admin1 (ObjectId ''65a000000000000000000001'') []
     = (Inr sample_karat, [sample_karat]) \<and>
   synced sample_karat \<and>
   updateKarat sample_id (empty_body\<lparr>b_status := JStr ''inactive''\<rparr>) admin1 [sample_karat]
     = (Inr inactive_karat, [inactive_karat]) \<and>
   status inactive_karat = Inactive \<and> isActive inactive_karat = True"
  by code_simp

section \<open>Properties of toggleKaratStatus\<close>

lemma find_map_same:
  assumes "\<And>x. P (f x) = P x"
  shows "find P (map f xs) = map_option f (find P xs)"
  using assms by (induction xs) simp_all

lemma list_ex_map_replace:
  assumes "\<not> Q r" "\<And>x. oid x = i \<Longrightarrow> \<not> Q x"
  shows "list_ex Q (map (\<lambda>x. if oid x = i then r else x) st) = list_ex Q st"
  using assms by (induction st) auto

lemma validator_update_toggle:
  assumes "num_less (minimum cur) (maximum cur)"
  shows "validator_update cur (toggle_body s) = Inr (cur\<lparr>status := s, isActive := (s = Active)\<rparr>)"
  unfolding validator_update_def Let_def resolve_num_def toggle_body_def bindE_def
  using assms by (cases s) (simp_all add: empty_body_def)

text \<open>
  Every document that \<open>save\<close> stores satisfies the validators, has its minimum
  below its maximum and respects the unique index: the hypotheses of C8 below hold of
  every record at the moment it is written.
\<close>

lemma index_conflict_self:
  "index_conflict r (st @ [r]) = index_conflict r st"
  unfolding index_conflict_def by (simp add: list_ex_iff)

lemma save_new_stored_valid:
  assumes "save_new d st = (Inr r, st')"
  shows "r \<in> set st' \<and> schema_valid r \<and> num_less (minimum r) (maximum r) \<and>
         \<not> index_conflict r st'"
proof -
  from save_new_Inr [OF assms] have v: "schema_valid d" and p: "pre_save d = Inr r"
    and s: "st' = st @ [r]" by auto
  from pre_save_Inr [OF p v] have r: "r = d" and lt: "num_less (minimum r) (maximum r)" by auto
  from assms v p have "\<not> index_conflict r st"
    unfolding save_new_def by (auto split: if_splits)
  with s have "\<not> index_conflict r st'" by (simp add: index_conflict_self)
  with v r lt s show ?thesis by simp
qed

lemma save_existing_stored_valid:
  assumes "save_existing d st = (Inr r, st')"
  shows "schema_valid r \<and> num_less (minimum r) (maximum r) \<and> \<not> index_conflict r st'"
proof -
  from save_existing_Inr [OF assms] have v: "schema_valid d" and p: "pre_save d = Inr r"
    and s: "st' = map (\<lambda>x. if oid x = oid r then r else x) st" by auto
  from pre_save_Inr [OF p v] have r: "r = d" and lt: "num_less (minimum r) (maximum r)" by auto
  from assms v p have n: "\<not> index_conflict r st"
    unfolding save_existing_def by (auto split: if_splits)
  have "index_conflict r st' = index_conflict r st"
    unfolding index_conflict_def s by (rule list_ex_map_replace) simp_all
  with n v r lt show ?thesis by simp
qed

text \<open>One toggle of a record that satisfies the schema and the unique index.\<close>

lemma toggle_step:
  fixes adminId :: objectId
  assumes found: "KaratMasterService_getKaratById kid st = Inr cur"
    and valid: "schema_valid cur" and lt: "num_less (minimum cur) (maximum cur)"
    and idx: "\<not> index_conflict cur st"
  defines "r1 \<equiv> cur\<lparr>status := flip_status (status cur),
                     isActive := (flip_status (status cur) = Active),
                     updatedBy := Some adminId\<rparr>"
  defines "st1 \<equiv> map (\<lambda>x. if oid x = oid cur then r1 else x) st"
  shows "toggleKaratStatus kid adminId st = (Inr r1, st1)"
    and "KaratMasterService_getKaratById kid st1 = Inr r1"
    and "schema_valid r1" and "num_less (minimum r1) (maximum r1)"
    and "\<not> index_conflict r1 st1"
proof -
  let ?s = "flip_status (status cur)"
  let ?m = "cur\<lparr>status := ?s, isActive := (?s = Active)\<rparr>"
  have r1: "r1 = ?m\<lparr>updatedBy := Some adminId\<rparr>" by (simp add: r1_def)
  show v1: "schema_valid r1" using valid by (simp add: schema_valid_def r1_def)
  show l1: "num_less (minimum r1) (maximum r1)" using lt by (simp add: r1_def)
  have cv: "karatCode_valid (karatCode r1)" using v1 by (simp add: schema_valid_def)
  then have up: "toUpperCase (karatCode r1) = karatCode r1"
    unfolding karatCode_valid_def by (simp add: toUpperCase_valid)
  have ps: "pre_save r1 = Inr r1"
    unfolding pre_save_def Let_def using up num_less_not_ge [OF l1] by simp
  have ic: "index_conflict r1 st = index_conflict cur st"
    unfolding index_conflict_def by (simp add: r1_def)
  have sv: "save_existing r1 st = (Inr r1, st1)"
    unfolding save_existing_def using v1 ps ic idx by (simp add: st1_def r1_def)
  show "toggleKaratStatus kid adminId st = (Inr r1, st1)"
    unfolding toggleKaratStatus_service [OF found] KaratMasterService_updateKarat_def
    using found validator_update_toggle [OF lt, of ?s] sv by (simp add: r1)
  from found obtain i where i: "castObjectId (JStr kid) = Some i"
    and f: "find (\<lambda>r. oid r = i) st = Some cur"
    unfolding KaratMasterService_getKaratById_def by (auto split: option.splits)
  from f have oc: "oid cur = i" by (auto simp: find_Some_iff)
  have "find (\<lambda>r. oid r = i) st1 = map_option (\<lambda>x. if oid x = oid cur then r1 else x) (find (\<lambda>r. oid r = i) st)"
    unfolding st1_def by (rule find_map_same) (simp add: oc r1_def)
  with f have "find (\<lambda>r. oid r = i) st1 = Some r1" by simp
  with i show "KaratMasterService_getKaratById kid st1 = Inr r1"
    unfolding KaratMasterService_getKaratById_def by simp
  have "index_conflict r1 st1 = index_conflict r1 st"
    unfolding index_conflict_def st1_def
    by (rule list_ex_map_replace) (simp_all add: r1_def)
  with ic idx show "\<not> index_conflict r1 st1" by simp
qed

text \<open>
  C8, as amended. For every existing record that satisfies the validators of the
  schema and the unique index, a toggle succeeds; on a record whose status is active
  it yields status inactive and the flag false, on one whose status is inactive it
  yields status active and the flag true; a second toggle succeeds and returns the
  status to its original value, with the flag true exactly when that status is
  active, which is the original flag when the two fields were synchronized.
\<close>

theorem toggleKaratStatus_flip_round_trip:
  assumes "KaratMasterService_getKaratById kid st = Inr cur"
    and "schema_valid cur" and "num_less (minimum cur) (maximum cur)"
    and "\<not> index_conflict cur st"
  shows "\<exists>r1 st1 r2 st2.
           toggleKaratStatus kid adminId st = (Inr r1, st1) \<and>
           (status cur = Active \<longrightarrow> status r1 = Inactive \<and> isActive r1 = False) \<and>
           (status cur = Inactive \<longrightarrow> status r1 = Active \<and> isActive r1 = True) \<and>
           toggleKaratStatus kid adminId st1 = (Inr r2, st2) \<and>
           status r2 = status cur \<and> isActive r2 = (status cur = Active) \<and>
           (synced cur \<longrightarrow> isActive r2 = isActive cur)"
proof -
  let ?r1 = "cur\<lparr>status := flip_status (status cur),
                     isActive := (flip_status (status cur) = Active),
                     updatedBy := Some adminId\<rparr>"
  let ?st1 = "map (\<lambda>x. if oid x = oid cur then ?r1 else x) st"
  note one = toggle_step [OF assms, of adminId]
  let ?r2 = "?r1\<lparr>status := flip_status (status ?r1),
                     isActive := (flip_status (status ?r1) = Active),
                     updatedBy := Some adminId\<rparr>"
  let ?st2 = "map (\<lambda>x. if oid x = oid ?r1 then ?r2 else x) ?st1"
  from toggle_step(1) [OF one(2) one(3) one(4) one(5), of adminId]
  have two: "toggleKaratStatus kid adminId ?st1 = (Inr ?r2, ?st2)" .
  have f1: "(status cur = Active \<longrightarrow> status ?r1 = Inactive \<and> isActive ?r1 = False) \<and>
           (status cur = Inactive \<longrightarrow> status ?r1 = Active \<and> isActive ?r1 = True)"
    by (cases "status cur") simp_all
  have f2: "status ?r2 = status cur \<and> isActive ?r2 = (status cur = Active)"
    by (cases "status cur") simp_all
  then have f3: "synced cur \<longrightarrow> isActive ?r2 = isActive cur"
    by (simp add: synced_def)
  from one(1) two f1 f2 f3 show ?thesis by blast
qed

lemma sample_store_ok:
  "schema_valid sample_karat \<and> num_less (minimum sample_karat) (maximum sample_karat) \<and>
   \<not> index_conflict sample_karat [sample_karat]"
  by code_simp

theorem toggleKaratStatus_flip_round_trip_witness:
  "\<exists>r1 st1 r2 st2.
     toggleKaratStatus sample_id admin1 [sample_karat] = (Inr r1, st1) \<and>
     status r1 = Inactive \<and> isActive r1 = False \<and>
     toggleKaratStatus sample_id admin1 st1 = (Inr r2, st2) \<and>
     status r2 = Active \<and> isActive r2 = True"
proof -
  have s: "status sample_karat = Active" "synced sample_karat" "isActive sample_karat = True"
    by (simp_all add: sample_karat_def synced_def)
  from sample_store_ok have a: "schema_valid sample_karat"
    and b: "num_less (minimum sample_karat) (maximum sample_karat)"
    and c: "\<not> index_conflict sample_karat [sample_karat]" by blast+
  from toggleKaratStatus_flip_round_trip [OF sample_found a b c, of admin1] s
  show ?thesis by auto
qed

text \<open>
  C8, as stated, fails: an update that supplies only the flag false turns the sample
  record into one with status active and the flag false; two toggles of that record
  leave the flag true, not at its original value.
\<close>

theorem toggleKaratStatus_twice_changes_flag:
  "updateKarat sample_id (empty_body\<lparr>b_isActive := JBool False\<rparr>) admin1 [sample_karat]
     = (Inr unflagged_karat, [unflagged_karat]) \<and>
   status unflagged_karat = Active \<and> isActive unflagged_karat = False \<and>
   map isActive (snd (toggleKaratStatus sample_id admin1
                    (snd (toggleKaratStatus sample_id admin1 [unflagged_karat])))) = [True]"
  by code_simp

end
